theory Spec2Isabelle
  imports Main "HOL-Library.Word" "HOL-Library.Signed_Division"
begin

chapter \<open>The benchmark harness of the hash tables (perfTest.cpp)\<close>

text \<open>
  The theory embeds the functions of \<^verbatim>\<open>src/perfTest.cpp\<close>: the fixed hash function
  \<^verbatim>\<open>hash\<close>, the trace parser \<^verbatim>\<open>parseText\<close>, the worker \<^verbatim>\<open>fgRun\<close>, the sequential
  run \<^verbatim>\<open>seqRun\<close> and the driver \<^verbatim>\<open>main\<close>. The platform is the usual LP64 one: \<^verbatim>\<open>int\<close>
  and \<^verbatim>\<open>uint\<close> are 32 bits wide, \<^verbatim>\<open>size_t\<close> is 64 bits wide, signed arithmetic is two's
  complement and wraps, and a narrowing conversion keeps the low bits.
\<close>

section \<open>Machine types\<close>

type_synonym cint = "32 word"
type_synonym size_t = "64 word"

section \<open>The fixed hash function\<close>

text \<open>
  \<^verbatim>\<open>
  int hash(int tag) {
      int temp = tag;
      int hashVal = 7;
      while(temp != 0) {
          hashVal *= 31;
          hashVal += temp % 10;
          temp /= 10;
      }
      return abs(hashVal);
  }
  \<close>
  The variable \<^verbatim>\<open>temp\<close> only shrinks, so it is carried as the integer it denotes; C's
  \<^verbatim>\<open>/\<close> and \<^verbatim>\<open>%\<close> truncate towards zero, which is \<open>sdiv\<close> and \<open>smod\<close> on \<^typ>\<open>int\<close>.
  The accumulator \<^verbatim>\<open>hashVal\<close> is a 32-bit word: its multiplication and addition wrap.
\<close>

function hash_loop :: "int \<Rightarrow> cint \<Rightarrow> cint" where
  "hash_loop temp hashVal =
     (if temp \<noteq> 0
      then hash_loop (temp sdiv 10) (hashVal * 31 + word_of_int (temp smod 10))
      else hashVal)"
  by pat_completeness auto
termination
  by (relation "measure (\<lambda>(temp, hashVal). nat \<bar>temp\<bar>)")
     (simp_all add: signed_divide_int_def abs_mult abs_sgn_eq)

declare hash_loop.simps [simp del]

text \<open>\<^verbatim>\<open>abs\<close> on a 32-bit \<^verbatim>\<open>int\<close>: the negation wraps, so \<^verbatim>\<open>abs(INT_MIN)\<close> is \<^verbatim>\<open>INT_MIN\<close>.\<close>

definition c_abs :: "cint \<Rightarrow> cint" where
  "c_abs x = (if sint x < 0 then - x else x)"

definition hash :: "cint \<Rightarrow> cint" where
  "hash tag = c_abs (hash_loop (sint tag) 7)"

section \<open>Instructions, errors and the parser\<close>

text \<open>
  \<^verbatim>\<open>enum Instr { insert, del, lookup };\<close> The first enumerator has the value 0. An
  element of \<^verbatim>\<open>input\<close> is a \<^verbatim>\<open>std::pair<Instr, std::pair<int, int> >\<close>.
\<close>

datatype Instr = insert_instr | del | lookup

type_synonym task = "Instr \<times> (cint \<times> cint)"

text \<open>
  The ways the program stops early: \<^verbatim>\<open>std::out_of_range\<close> thrown by \<^verbatim>\<open>substr\<close> and never
  caught, a failed \<^verbatim>\<open>assert\<close> (the source does not define \<^verbatim>\<open>NDEBUG\<close>), the call of
  \<^verbatim>\<open>get_data\<close> through a null pointer, the division by a zero thread count and a read of
  \<^verbatim>\<open>input\<close> outside its bounds.
\<close>

datatype error = out_of_range | assertion_failed | null_dereference | division_by_zero
  | index_out_of_bounds

subsection \<open>The functions of std::string and of the C library the parser calls\<close>

text \<open>
  A \<^verbatim>\<open>std::string\<close> is a list of characters; its positions are of type \<^verbatim>\<open>size_t\<close>.
  \<^verbatim>\<open>s.substr(pos, n)\<close> throws when \<open>pos > size()\<close> and copies at most \<open>n\<close> characters;
  \<^verbatim>\<open>s.find_first_of(c)\<close> is the first position of \<open>c\<close>, or \<^verbatim>\<open>npos\<close>; \<^verbatim>\<open>s[i]\<close> with
  \<open>i = size()\<close> is the null character.
\<close>

definition npos :: size_t where
  "npos = - 1"

definition substr :: "string \<Rightarrow> size_t \<Rightarrow> size_t \<Rightarrow> error + string" where
  "substr s pos n =
     (if length s < unat pos then Inl out_of_range
      else Inr (take (unat n) (drop (unat pos) s)))"

definition find_first_of :: "string \<Rightarrow> char \<Rightarrow> size_t" where
  "find_first_of s c =
     (if c \<in> set s then of_nat (length (takeWhile (\<lambda>x. x \<noteq> c) s)) else npos)"

definition char_at :: "string \<Rightarrow> nat \<Rightarrow> char" where
  "char_at s i = (if i < length s then s ! i else CHR 0x00)"

text \<open>
  \<^verbatim>\<open>atoi\<close> as the GNU C library has it, \<^verbatim>\<open>(int) strtol(s, NULL, 10)\<close>: white space is
  skipped, one sign is read, the decimal digits that follow are accumulated, the result
  saturates at the bounds of \<^verbatim>\<open>long\<close> and is then narrowed to \<^verbatim>\<open>int\<close>. For a number that
  fits \<^verbatim>\<open>int\<close> this is the value the C standard prescribes.
\<close>

definition isspace :: "char \<Rightarrow> bool" where
  "isspace c = (c \<in> set [CHR '' '', CHR 0x09, CHR 0x0A, CHR 0x0B, CHR 0x0C, CHR 0x0D])"

definition isdigit :: "char \<Rightarrow> bool" where
  "isdigit c = (48 \<le> (of_char c :: nat) \<and> (of_char c :: nat) \<le> 57)"

definition digit_val :: "char \<Rightarrow> int" where
  "digit_val c = int (of_char c) - 48"

definition LONG_MAX :: int where
  "LONG_MAX = 9223372036854775807"

definition LONG_MIN :: int where
  "LONG_MIN = - 9223372036854775808"

definition strtol :: "string \<Rightarrow> int" where
  "strtol s =
     (let s1 = dropWhile isspace s;
          neg = (char_at s1 0 = CHR ''-'');
          s2 = (if char_at s1 0 = CHR ''-'' \<or> char_at s1 0 = CHR ''+'' then drop 1 s1 else s1);
          v = foldl (\<lambda>a c. 10 * a + digit_val c) 0 (takeWhile isdigit s2)
      in if neg then max LONG_MIN (- v) else min LONG_MAX v)"

definition atoi :: "string \<Rightarrow> cint" where
  "atoi s = word_of_int (strtol s)"

subsection \<open>One line of the trace\<close>

text \<open>
  The body of the \<^verbatim>\<open>if (str.length() > 0)\<close> block of \<^verbatim>\<open>parseText\<close>:
  \<^verbatim>\<open>
  std::pair<Instr, std::pair<int, int> > task;
  ...
  char instr = str[0];
  switch(instr) {
  case 'L': task.first = lookup; break;
  case 'I': task.first = insert; break;
  case 'D': task.first = del; break;
  default: break;
  }
  std::pair<int, int> keyval;
  std::string rest = str.substr(2);
  int spcIdx = rest.find_first_of(' ');
  keyval.first = atoi(rest.substr(0, spcIdx).c_str());
  keyval.second = atoi(rest.substr(spcIdx + 1).c_str());
  task.second = keyval;
  input.push_back(task);
  \<close>
  The default constructor of \<^verbatim>\<open>std::pair\<close> value-initialises both members, so \<^verbatim>\<open>task.first\<close>
  starts as \<^verbatim>\<open>Instr(0)\<close>, which is \<^verbatim>\<open>insert\<close>; the \<^verbatim>\<open>default\<close> branch leaves it so. The
  position returned by \<^verbatim>\<open>find_first_of\<close> is narrowed to the \<^verbatim>\<open>int\<close> \<^verbatim>\<open>spcIdx\<close> and widened
  again, with its sign, where \<^verbatim>\<open>substr\<close> takes it.
\<close>

definition default_task :: task where
  "default_task = (insert_instr, (0, 0))"

definition parseLine :: "string \<Rightarrow> error + task" where
  "parseLine str =
     (let task = default_task;
          instr = char_at str 0;
          first = (if instr = CHR ''L'' then lookup
                   else if instr = CHR ''I'' then insert_instr
                   else if instr = CHR ''D'' then del
                   else fst task)
      in case substr str 2 npos of
           Inl e \<Rightarrow> Inl e
         | Inr rest \<Rightarrow>
             (let spcIdx = (ucast (find_first_of rest (CHR '' '')) :: cint)
              in case substr rest 0 (scast spcIdx) of
                   Inl e \<Rightarrow> Inl e
                 | Inr k \<Rightarrow>
                     (case substr rest (scast (spcIdx + 1)) npos of
                        Inl e \<Rightarrow> Inl e
                      | Inr v \<Rightarrow> Inr (first, (atoi k, atoi v)))))"

definition loop_body :: "string \<Rightarrow> task list \<Rightarrow> error + task list" where
  "loop_body str input =
     (if length str > 0
      then (case parseLine str of Inl e \<Rightarrow> Inl e | Inr task \<Rightarrow> Inr (input @ [task]))
      else Inr input)"

subsection \<open>The input stream and parseText\<close>

text \<open>
  An \<^verbatim>\<open>std::ifstream\<close> is the text not yet read and two state bits. Opening a file that
  does not exist sets \<^verbatim>\<open>failbit\<close>. \<^verbatim>\<open>std::getline\<close> on a stream that is not good sets
  \<^verbatim>\<open>failbit\<close> and leaves the string alone; otherwise it reads up to the next newline
  (which it removes from the stream) or to the end of the text (which sets \<^verbatim>\<open>eofbit\<close>, and
  also \<^verbatim>\<open>failbit\<close> when nothing at all was read).
\<close>

record ifstream =
  buf :: string
  eofbit :: bool
  failbit :: bool

definition ifstream_open :: "(string \<Rightarrow> string option) \<Rightarrow> string \<Rightarrow> ifstream" where
  "ifstream_open fs filename =
     (case fs filename of
        None \<Rightarrow> \<lparr>buf = [], eofbit = False, failbit = True\<rparr>
      | Some content \<Rightarrow> \<lparr>buf = content, eofbit = False, failbit = False\<rparr>)"

definition getline :: "ifstream \<Rightarrow> string \<Rightarrow> ifstream \<times> string" where
  "getline infile str =
     (if eofbit infile \<or> failbit infile then (infile\<lparr>failbit := True\<rparr>, str)
      else (let line = takeWhile (\<lambda>c. c \<noteq> CHR 0x0A) (buf infile)
            in case dropWhile (\<lambda>c. c \<noteq> CHR 0x0A) (buf infile) of
                 [] \<Rightarrow> (infile\<lparr>buf := [], eofbit := True, failbit := (line = [])\<rparr>, line)
               | delim # rest \<Rightarrow> (infile\<lparr>buf := rest\<rparr>, line)))"

text \<open>
  \<^verbatim>\<open>
  void parseText(const std::string &filename)
  {
      std::ifstream infile;
      infile.open(filename.c_str());
      input.resize(0);
      while(!infile.eof())
      {
          std::string str;
          std::pair<Instr, std::pair<int, int> > task;
          getline(infile, str);
          if (str.length() > 0) { ... input.push_back(task); }
      }
  }
  \<close>
  The loop ends only when \<^verbatim>\<open>eofbit\<close> is set, which never happens on a stream that failed
  to open: the result \<open>None\<close> stands for a loop that does not return. The global vector
  \<^verbatim>\<open>input\<close> is passed in and handed back.
\<close>

partial_function (option) parse_loop :: "ifstream \<Rightarrow> task list \<Rightarrow> (error + task list) option" where
  "parse_loop infile input =
     (if eofbit infile then Some (Inr input)
      else (case getline infile [] of
              (infile', str) \<Rightarrow>
                (case loop_body str input of
                   Inl e \<Rightarrow> Some (Inl e)
                 | Inr input' \<Rightarrow> parse_loop infile' input')))"

definition parseText ::
  "(string \<Rightarrow> string option) \<Rightarrow> string \<Rightarrow> task list \<Rightarrow> (error + task list) option" where
  "parseText fs filename input = parse_loop (ifstream_open fs filename) (take 0 input)"

section \<open>The hash tables as the harness sees them\<close>

text \<open>
  The harness calls the constructor, \<^verbatim>\<open>insert\<close>, \<^verbatim>\<open>remove\<close> and \<^verbatim>\<open>find\<close> of
  \<^verbatim>\<open>SeqHashTable<int, int>\<close> and \<^verbatim>\<open>FgHashTable<int, int>\<close>, and \<^verbatim>\<open>get_data\<close> of the node
  a call returns. The two class templates live in headers outside \<^verbatim>\<open>perfTest.cpp\<close>, so
  the functions of the harness take the table as a parameter: a record of its four
  operations over a state \<open>'t\<close>. A null pointer is \<open>None\<close>.
\<close>

record LLNode =
  get_key :: cint
  get_data :: cint

record 't table_ops =
  ht_new :: "nat \<Rightarrow> 't"
  ht_insert :: "'t \<Rightarrow> cint \<Rightarrow> cint \<Rightarrow> 't"
  ht_remove :: "'t \<Rightarrow> cint \<Rightarrow> LLNode option \<times> 't"
  ht_find :: "'t \<Rightarrow> cint \<Rightarrow> LLNode option"

text \<open>
  Modelled from the spec: the sequential and the fine-grained table (the headers
  \<^verbatim>\<open>seq_hash_table.h\<close> and \<^verbatim>\<open>fg_hash_table.h\<close> are missing from the sources). A table is
  a fixed number of bucket chains; \<^verbatim>\<open>insert\<close> prepends a node to the chain of bucket
  \<open>hash(k) mod capacity\<close>, \<^verbatim>\<open>find\<close> returns the first node of that chain with the key,
  \<^verbatim>\<open>remove\<close> unlinks and returns it. In the fine-grained table each operation runs under
  the mutex of its bucket, so it is atomic. The instance serves the concrete runs below.
\<close>

record chain_table =
  capacity :: nat
  buckets :: "nat \<Rightarrow> LLNode list"

definition bucket_of :: "chain_table \<Rightarrow> cint \<Rightarrow> nat" where
  "bucket_of t k = nat (sint (hash k)) mod capacity t"

definition chain_new :: "nat \<Rightarrow> chain_table" where
  "chain_new cap = \<lparr>capacity = cap, buckets = (\<lambda>b. [])\<rparr>"

definition chain_insert :: "chain_table \<Rightarrow> cint \<Rightarrow> cint \<Rightarrow> chain_table" where
  "chain_insert t k v =
     t\<lparr>buckets := (buckets t)
          (bucket_of t k := \<lparr>get_key = k, get_data = v\<rparr> # buckets t (bucket_of t k))\<rparr>"

definition chain_find :: "chain_table \<Rightarrow> cint \<Rightarrow> LLNode option" where
  "chain_find t k = List.find (\<lambda>n. get_key n = k) (buckets t (bucket_of t k))"

fun unlink :: "cint \<Rightarrow> LLNode list \<Rightarrow> LLNode list" where
  "unlink k [] = []"
| "unlink k (n # ns) = (if get_key n = k then ns else n # unlink k ns)"

definition chain_remove :: "chain_table \<Rightarrow> cint \<Rightarrow> LLNode option \<times> chain_table" where
  "chain_remove t k =
     (chain_find t k,
      t\<lparr>buckets := (buckets t)(bucket_of t k := unlink k (buckets t (bucket_of t k)))\<rparr>)"

definition chain_ops :: "chain_table table_ops" where
  "chain_ops = \<lparr>ht_new = chain_new, ht_insert = chain_insert, ht_remove = chain_remove,
     ht_find = chain_find\<rparr>"

section \<open>The sequential run\<close>

text \<open>
  \<^verbatim>\<open>
  for (int i = 0; i < input.size(); i++)
  {
      std::pair<Instr, std::pair<int, int> > instr = input[i];
      switch(instr.first)
      {
          case insert:
              htable->insert(instr.second.first, instr.second.second);
              break;
          case del:
              assert(htable->remove(instr.second.first)->get_data() == instr.second.second);
              break;
          case lookup:
              assert(htable->find(instr.second.first)->get_data() == instr.second.second);
              break;
          default:
              break;
      }
  }
  \<close>
  The counter is an \<^verbatim>\<open>int\<close> compared with a \<^verbatim>\<open>size_t\<close>: after the index \<open>2\<^sup>3\<^sup>1 - 1\<close> it
  wraps to a value that, widened, is not below any size, so the loop visits the first
  \<open>2\<^sup>3\<^sup>1\<close> instructions at most. The value \<^verbatim>\<open>seqRun\<close> returns is a duration, which the
  model leaves out.
\<close>

fun seqStep :: "'t table_ops \<Rightarrow> 't \<Rightarrow> task \<Rightarrow> error + 't" where
  "seqStep ops htable (insert_instr, (k, v)) = Inr (ht_insert ops htable k v)"
| "seqStep ops htable (del, (k, v)) =
     (case ht_remove ops htable k of
        (None, htable') \<Rightarrow> Inl null_dereference
      | (Some res, htable') \<Rightarrow>
          if get_data res = v then Inr htable' else Inl assertion_failed)"
| "seqStep ops htable (lookup, (k, v)) =
     (case ht_find ops htable k of
        None \<Rightarrow> Inl null_dereference
      | Some res \<Rightarrow> if get_data res = v then Inr htable else Inl assertion_failed)"

fun seqLoop :: "'t table_ops \<Rightarrow> 't \<Rightarrow> task list \<Rightarrow> error + 't" where
  "seqLoop ops htable [] = Inr htable"
| "seqLoop ops htable (instr # rest) =
     (case seqStep ops htable instr of
        Inl e \<Rightarrow> Inl e
      | Inr htable' \<Rightarrow> seqLoop ops htable' rest)"

definition seqRun :: "'t table_ops \<Rightarrow> 't \<Rightarrow> task list \<Rightarrow> error + 't" where
  "seqRun ops htable input = seqLoop ops htable (take 2147483648 input)"

section \<open>The worker of the concurrent run\<close>

text \<open>
  \<^verbatim>\<open>
  int id = *(int*)arg;
  int instrPerThread = input.size() / numThreads;
  int start = instrPerThread * id;
  int end = (start + instrPerThread < input.size()) ? (start + instrPerThread) : input.size();
  for (int i = start; i < end; i++) { ... }
  \<close>
  The division and the comparison are done in \<^verbatim>\<open>size_t\<close>, to which the \<^verbatim>\<open>int\<close> operands
  are widened with their sign; the results are narrowed to \<^verbatim>\<open>int\<close>. \<open>fgBounds\<close> gives
  \<^verbatim>\<open>start\<close> and \<^verbatim>\<open>end\<close> from the size of \<^verbatim>\<open>input\<close>, \<open>fgIndices\<close> the values the counter
  \<^verbatim>\<open>i\<close> takes, in order, and \<open>fgSlice\<close> the instructions \<^verbatim>\<open>input[i]\<close> read there.
\<close>

definition fgBounds :: "size_t \<Rightarrow> cint \<Rightarrow> cint \<Rightarrow> error + cint \<times> cint" where
  "fgBounds n numThreads tid =
     (if (scast numThreads :: size_t) = 0 then Inl division_by_zero
      else (let instrPerThread = (ucast (n div scast numThreads) :: cint);
                start = instrPerThread * tid;
                end_i = (if (scast (start + instrPerThread) :: size_t) < n
                         then start + instrPerThread else ucast n)
            in Inr (start, end_i)))"

definition fgIndices :: "size_t \<Rightarrow> cint \<Rightarrow> cint \<Rightarrow> error + int list" where
  "fgIndices n numThreads tid =
     (case fgBounds n numThreads tid of
        Inl e \<Rightarrow> Inl e
      | Inr (start, end_i) \<Rightarrow> Inr [sint start..sint end_i - 1])"

fun fetch :: "task list \<Rightarrow> int list \<Rightarrow> error + task list" where
  "fetch input [] = Inr []"
| "fetch input (i # is) =
     (if 0 \<le> i \<and> nat i < length input
      then (case fetch input is of Inl e \<Rightarrow> Inl e | Inr ts \<Rightarrow> Inr (input ! nat i # ts))
      else Inl index_out_of_bounds)"

definition fgSlice :: "task list \<Rightarrow> cint \<Rightarrow> cint \<Rightarrow> error + task list" where
  "fgSlice input numThreads tid =
     (case fgIndices (of_nat (length input)) numThreads tid of
        Inl e \<Rightarrow> Inl e
      | Inr is \<Rightarrow> fetch input is)"

text \<open>
  The body of the loop of \<^verbatim>\<open>fgRun\<close>, on the shared table and the standard output:
  \<^verbatim>\<open>
  case insert:
      htable->insert(instr.second.first, instr.second.second);
      break;
  case del:
      res = htable->remove(instr.second.first); // Can fail
      if (res != NULL && res->get_data() != instr.second.second)
      {
          printf("Error: deletion failed!\n");
      }
      break;
  case lookup:
      res = htable->find(instr.second.first); // Can fail
      if (res != NULL && res->get_data() != instr.second.second)
      {
          printf("Error: lookup failed!\n");
      }
      break;
  \<close>
\<close>

fun fgStep :: "'t table_ops \<Rightarrow> 't \<times> string list \<Rightarrow> task \<Rightarrow> 't \<times> string list" where
  "fgStep ops (htable, out) (insert_instr, (k, v)) = (ht_insert ops htable k v, out)"
| "fgStep ops (htable, out) (del, (k, v)) =
     (case ht_remove ops htable k of
        (res, htable') \<Rightarrow>
          if res \<noteq> None \<and> get_data (the res) \<noteq> v
          then (htable', out @ [''Error: deletion failed!''])
          else (htable', out))"
| "fgStep ops (htable, out) (lookup, (k, v)) =
     (case ht_find ops htable k of
        res \<Rightarrow>
          if res \<noteq> None \<and> get_data (the res) \<noteq> v
          then (htable, out @ [''Error: lookup failed!''])
          else (htable, out))"

text \<open>A worker that runs alone executes its slice in order.\<close>

definition fgRun ::
  "'t table_ops \<Rightarrow> task list \<Rightarrow> cint \<Rightarrow> cint \<Rightarrow> 't \<times> string list \<Rightarrow> error + 't \<times> string list" where
  "fgRun ops input numThreads tid st =
     (case fgSlice input numThreads tid of
        Inl e \<Rightarrow> Inl e
      | Inr ts \<Rightarrow> Inr (foldl (fgStep ops) st ts))"

text \<open>
  Workers that run together interleave: a step of the concurrent run is the next
  instruction of any one worker, applied to the shared table and output.
\<close>

inductive fg_sched ::
  "'t table_ops \<Rightarrow> task list list \<times> ('t \<times> string list)
    \<Rightarrow> task list list \<times> ('t \<times> string list) \<Rightarrow> bool"
  for ops :: "'t table_ops" where
  "i < length ws \<Longrightarrow> ws ! i = instr # rest
   \<Longrightarrow> fg_sched ops (ws, st) (ws[i := rest], fgStep ops st instr)"

section \<open>The driver\<close>

text \<open>
  \<^verbatim>\<open>
  const char *args[] = {"tests/uniform_all_test.txt",
                        "tests/chunked_test_InsDel.txt",
                        "tests/50p_del_test_InsDel.txt", // 30
                        "tests/25p_del_test_InsDel.txt", // 20
                        "tests/10p_del_all.txt"};
  std::vector<std::string> testfiles(args, args + sizeof(args)/sizeof(args[0]));
  \<close>
\<close>

definition args :: "string list" where
  "args = [''tests/uniform_all_test.txt'', ''tests/chunked_test_InsDel.txt'',
     ''tests/50p_del_test_InsDel.txt'', ''tests/25p_del_test_InsDel.txt'',
     ''tests/10p_del_all.txt'']"

definition testfiles :: "string list" where
  "testfiles = take (length args) args"

text \<open>
  The size both constructors are called with: \<^verbatim>\<open>input.size() / 1000\<close>, a division of
  \<^verbatim>\<open>size_t\<close> values.
\<close>

definition table_capacity :: "task list \<Rightarrow> nat" where
  "table_capacity input = length input div 1000"

text \<open>
  What the main thread does, as a log of its actions: its \<^verbatim>\<open>printf\<close> calls, the calls
  of \<^verbatim>\<open>parseText\<close> and \<^verbatim>\<open>seqRun\<close>, the construction and destruction of tables, the
  assignment to \<^verbatim>\<open>numThreads\<close> and the creation and joining of threads (thread \<open>id\<close> runs
  \<^verbatim>\<open>fgRun\<close> with \<^verbatim>\<open>ids[id] = id\<close>). Durations are left out.
\<close>

datatype event =
    print_testing string
  | call_parseText string
  | new_baseline nat
  | call_seqRun
  | new_htable nat
  | set_numThreads cint
  | pthread_create nat
  | pthread_join nat
  | print_fg cint
  | delete_htable
  | delete_baseline

text \<open>
  The body of \<^verbatim>\<open>for (uint j = 1; j <= 16; j *= 2)\<close>:
  \<^verbatim>\<open>
  htable = new FgHashTable<int, int>(input.size() / 1000, &hash);
  numThreads = j;
  for (uint id = 0; id < j; id++) pthread_create(&threads[id], NULL, fgRun, &ids[id]);
  for (uint id = 0; id < j; id++) pthread_join(threads[id], NULL);
  printf(...); printf(...);
  delete(htable);
  \<close>
\<close>

definition fg_round :: "nat \<Rightarrow> cint \<Rightarrow> event list" where
  "fg_round cap j =
     [new_htable cap, set_numThreads j] @ map pthread_create [0..<unat j]
     @ map pthread_join [0..<unat j] @ [print_fg j, delete_htable]"

partial_function (option) fg_loop :: "cint \<Rightarrow> nat \<Rightarrow> event list \<Rightarrow> event list option" where
  "fg_loop j cap log =
     (if j \<le> 16 then fg_loop (j * 2) cap (log @ fg_round cap j) else Some log)"

text \<open>
  The body of the loop over \<^verbatim>\<open>testfiles\<close>, and \<^verbatim>\<open>main\<close>. A failed assertion or an
  exception ends the program (\<open>Inl\<close>); a loop that does not return is \<open>None\<close>.
\<close>

fun file_loop ::
  "'t table_ops \<Rightarrow> (string \<Rightarrow> string option) \<Rightarrow> string list \<Rightarrow> task list \<Rightarrow> event list
    \<Rightarrow> (error + event list) option" where
  "file_loop ops fs [] input log = Some (Inr log)"
| "file_loop ops fs (f # files) input log =
     (case parseText fs f input of
        None \<Rightarrow> None
      | Some (Inl e) \<Rightarrow> Some (Inl e)
      | Some (Inr input') \<Rightarrow>
          (case seqRun ops (ht_new ops (table_capacity input')) input' of
             Inl e \<Rightarrow> Some (Inl e)
           | Inr baseline \<Rightarrow>
               (case fg_loop 1 (table_capacity input')
                       (log @ [print_testing f, call_parseText f,
                               new_baseline (table_capacity input'), call_seqRun]) of
                  None \<Rightarrow> None
                | Some log' \<Rightarrow> file_loop ops fs files input' (log' @ [delete_baseline]))))"

definition main :: "'t table_ops \<Rightarrow> (string \<Rightarrow> string option) \<Rightarrow> (error + event list) option" where
  "main ops fs = file_loop ops fs testfiles [] []"

section \<open>Evaluating the hash function\<close>

lemmas hash_eval = hash_def c_abs_def hash_loop.simps signed_divide_int_def signed_modulo_int_def

text \<open>
  Claim C2. The fixtures of the hash function: \<open>hash(0) = 7\<close>,
  \<open>hash(7) = 7 * 31 + 7 = 224\<close> and \<open>hash(12) = (7 * 31 + 2) * 31 + 1 = 6790\<close>; the
  absolute value changes none of them, as the accumulated value is already positive.
\<close>

theorem hash_fixtures:
  "hash 0 = 7 \<and> hash 7 = 7 * 31 + 7 \<and> hash 7 = 224
   \<and> hash 12 = (7 * 31 + 2) * 31 + 1 \<and> hash 12 = 6790
   \<and> hash_loop (sint (7 :: cint)) 7 = hash 7
   \<and> hash_loop (sint (12 :: cint)) 7 = hash 12"
  by (simp add: hash_eval)

text \<open>
  Claim C3, as the code has it. The loop runs once per decimal digit of the tag, so for
  the tag 10 it runs twice (digit 0, then digit 1): the accumulated value, before and
  after the absolute value, is \<open>(7 * 31 + 0) * 31 + 1 = 6728\<close>. The function reads
  nothing but its argument: equal tags give equal hashes.
\<close>

theorem hash_ten_and_deterministic:
  "hash_loop (sint (10 :: cint)) 7 = (7 * 31 + 0) * 31 + 1 \<and> hash 10 = 6728
   \<and> hash n = hash n"
  by (simp add: hash_eval)

text \<open>
  The value 217 named for the tag 10 is the accumulator after the first of the two
  rounds only; neither the accumulated value nor the hash of 10 equals it.
\<close>

theorem hash_ten_counterexample:
  "hash_loop (sint (10 :: cint)) 7 \<noteq> 7 * 31 + 0 \<and> hash_loop (sint (10 :: cint)) 7 \<noteq> 217
   \<and> hash 10 \<noteq> 217"
  by (simp add: hash_eval)

end
